theory Spec2Isabelle
  imports Complex_Main
begin

section \<open>Numbers and vectors\<close>

text \<open>
  JavaScript numbers are modelled as mathematical reals: every theorem below is about the
  arithmetic the program writes down, not about IEEE rounding. Row and column counts are
  natural numbers.

  The vector operations are those of the three.js class \<open>Vector3\<close> that the program calls.
  In three.js \<open>sub\<close>, \<open>add\<close>, \<open>normalize\<close>, \<open>multiplyScalar\<close>, \<open>copy\<close> and
  \<open>applyAxisAngle\<close> overwrite the receiver and return it, \<open>clone\<close> makes a new vector.
  Here each one is a pure function; where the program keeps using a receiver after it was
  overwritten, the model uses the overwritten value.
\<close>

datatype vec3 = Vector3 (vx: real) (vy: real) (vz: real)

definition vsub :: "vec3 \<Rightarrow> vec3 \<Rightarrow> vec3" where
  "vsub a b = Vector3 (vx a - vx b) (vy a - vy b) (vz a - vz b)"

definition vadd :: "vec3 \<Rightarrow> vec3 \<Rightarrow> vec3" where
  "vadd a b = Vector3 (vx a + vx b) (vy a + vy b) (vz a + vz b)"

definition multiplyScalar :: "vec3 \<Rightarrow> real \<Rightarrow> vec3" where
  "multiplyScalar a s = Vector3 (vx a * s) (vy a * s) (vz a * s)"

definition vlength :: "vec3 \<Rightarrow> real" where
  "vlength a = sqrt (vx a * vx a + vy a * vy a + vz a * vz a)"

text \<open>\<open>normalize\<close> divides by \<open>length() || 1\<close>: the zero vector stays the zero vector.\<close>

definition normalize :: "vec3 \<Rightarrow> vec3" where
  "normalize a = multiplyScalar a (1 / (if vlength a = 0 then 1 else vlength a))"

definition distanceTo :: "vec3 \<Rightarrow> vec3 \<Rightarrow> real" where
  "distanceTo a b =
     sqrt ((vx a - vx b) * (vx a - vx b) + (vy a - vy b) * (vy a - vy b)
           + (vz a - vz b) * (vz a - vz b))"

text \<open>
  \<open>v.applyAxisAngle(new Vector3(0, 1, 0), angle)\<close>: the rotation of \<open>v\<close> about the
  vertical axis.
\<close>

definition applyAxisAngleY :: "vec3 \<Rightarrow> real \<Rightarrow> vec3" where
  "applyAxisAngleY v a =
     Vector3 (vx v * cos a + vz v * sin a) (vy v) (vz v * cos a - vx v * sin a)"

text \<open>\<open>Math.atan2\<close> and \<open>Math.sign\<close> on reals.\<close>

definition atan2 :: "real \<Rightarrow> real \<Rightarrow> real" where
  "atan2 b a =
     (if 0 < a then arctan (b / a)
      else if a < 0 then (if 0 \<le> b then arctan (b / a) + pi else arctan (b / a) - pi)
      else if 0 < b then pi / 2
      else if b < 0 then - (pi / 2)
      else 0)"

definition sign :: "real \<Rightarrow> real" where
  "sign a = (if 0 < a then 1 else if a < 0 then - 1 else 0)"

section \<open>The parking lot\<close>

text \<open>
  A parking space is a JavaScript object, and \<open>setSpaceOccupied\<close> asks whether the very
  object it is given is in \<open>this.spaces\<close>. So spaces live in a store, addressed by
  references, and the lot holds the references in the order they were pushed.
  All space meshes are built with one and the same material object; its colour is one cell.
\<close>

type_synonym ref = nat

record space =
  row :: nat
  col :: nat
  side :: nat
  position :: vec3
  rotation :: real
  occupied :: bool

record parkingLot =
  rows :: nat
  columns :: nat
  spaceWidth :: real
  spaceLength :: real
  aisleWidth :: real
  spaces :: "ref list"
  totalWidth :: real
  totalLength :: real

record world =
  heap :: "ref \<Rightarrow> space"
  spaceMaterialColor :: nat
  lot :: parkingLot

text \<open>
  The options of the constructor: an omitted field is \<open>None\<close>. \<open>options.rows || 3\<close> takes the
  default for an omitted field and for 0.
\<close>

record lotOptions =
  optRows :: "nat option"
  optColumns :: "nat option"
  optSpaceWidth :: "real option"
  optSpaceLength :: "real option"
  optAisleWidth :: "real option"

definition orDefault :: "'a::zero option \<Rightarrow> 'a \<Rightarrow> 'a" where
  "orDefault v d = (case v of None \<Rightarrow> d | Some a \<Rightarrow> if a = 0 then d else a)"

definition mkSpace :: "parkingLot \<Rightarrow> nat \<Rightarrow> nat \<Rightarrow> nat \<Rightarrow> space" where
  "mkSpace l sd rw cl =
     (let zOffset = (if sd = 0 then - aisleWidth l / 2 - spaceLength l / 2
                     else aisleWidth l / 2 + spaceLength l / 2);
          facingDirection = (if sd = 0 then pi else 0);
          xPos = (real cl * spaceWidth l) - (totalWidth l / 2) + (spaceWidth l / 2);
          zPos = zOffset + (real rw * spaceLength l * (if sd = 0 then - 1 else 1))
      in \<lparr> row = rw, col = cl, side = sd, position = Vector3 xPos 0 zPos,
           rotation = facingDirection, occupied = False \<rparr>)"

text \<open>The three nested loops of \<open>createParkingSpaces\<close>, in push order.\<close>

definition createParkingSpaces :: "parkingLot \<Rightarrow> space list" where
  "createParkingSpaces l =
     concat (map (\<lambda>sd. concat (map (\<lambda>rw. map (\<lambda>cl. mkSpace l sd rw cl) [0..<columns l])
                                      [0..<rows l]))
                 [0..<2])"

text \<open>
  The constructor. The new space objects get the addresses \<open>0, 1, ...\<close> in push order; the
  rest of the store \<open>h0\<close> (objects that are not spaces of this lot) is left as it is.
\<close>

definition newParkingLot :: "(ref \<Rightarrow> space) \<Rightarrow> lotOptions \<Rightarrow> world" where
  "newParkingLot h0 opts =
     (let r = orDefault (optRows opts) 3;
          c = orDefault (optColumns opts) 5;
          sw = orDefault (optSpaceWidth opts) 3;
          sl = orDefault (optSpaceLength opts) 6;
          aw = orDefault (optAisleWidth opts) 8;
          l = \<lparr> rows = r, columns = c, spaceWidth = sw, spaceLength = sl, aisleWidth = aw,
                spaces = [], totalWidth = real c * sw,
                totalLength = (real r * sl * 2) + aw \<rparr>;
          objs = createParkingSpaces l
      in \<lparr> heap = (\<lambda>a. if a < length objs then objs ! a else h0 a),
           spaceMaterialColor = 0x666666,
           lot = l\<lparr> spaces := [0..<length objs] \<rparr> \<rparr>)"

definition getTotalSpaces :: "world \<Rightarrow> nat" where
  "getTotalSpaces w = length (spaces (lot w))"

text \<open>
  \<open>findAvailableSpace\<close>: \<open>closestDistance\<close> starts at \<open>Infinity\<close>, which every real distance
  is below.
\<close>

datatype bound = Infinity | Finite real

fun below :: "real \<Rightarrow> bound \<Rightarrow> bool" where
  "below d Infinity = True"
| "below d (Finite c) = (d < c)"

fun scanSpaces :: "(ref \<Rightarrow> space) \<Rightarrow> vec3 \<Rightarrow> ref list \<Rightarrow> ref option \<Rightarrow> bound \<Rightarrow> ref option" where
  "scanSpaces h p [] closestSpace closestDistance = closestSpace"
| "scanSpaces h p (s # ss) closestSpace closestDistance =
     (if \<not> occupied (h s) then
        (let distance = distanceTo p (position (h s))
         in if below distance closestDistance
            then scanSpaces h p ss (Some s) (Finite distance)
            else scanSpaces h p ss closestSpace closestDistance)
      else scanSpaces h p ss closestSpace closestDistance)"

definition findAvailableSpace :: "world \<Rightarrow> vec3 \<Rightarrow> ref option" where
  "findAvailableSpace w p = scanSpaces (heap w) p (spaces (lot w)) None Infinity"

text \<open>
  What a vehicle's \<open>targetSpace\<close> can point to: a space object of the store, or the object
  literal \<open>{position: (-50, 0, 0), rotation: 0}\<close> that \<open>leaveParking\<close> makes. The literal is
  a new object each time, so it is in no \<open>spaces\<close> array; nothing ever writes to it.
\<close>

datatype target = SpaceRef ref | ExitObj

fun targetPosition :: "world \<Rightarrow> target \<Rightarrow> vec3" where
  "targetPosition w (SpaceRef r) = position (heap w r)"
| "targetPosition w ExitObj = Vector3 (- 50) 0 0"

fun targetRotation :: "world \<Rightarrow> target \<Rightarrow> real" where
  "targetRotation w (SpaceRef r) = rotation (heap w r)"
| "targetRotation w ExitObj = 0"

text \<open>\<open>this.spaces.includes(space)\<close>: is this very object in the array?\<close>

fun spacesIncludes :: "ref list \<Rightarrow> target \<Rightarrow> bool" where
  "spacesIncludes rs (SpaceRef r) = (r \<in> set rs)"
| "spacesIncludes rs ExitObj = False"

text \<open>
  \<open>setSpaceOccupied(space, isOccupied)\<close>; \<open>None\<close> is a null argument. The colour is set on
  \<open>space.mesh.material\<close>, the material shared by all space meshes.
\<close>

fun setFlag :: "target \<Rightarrow> bool \<Rightarrow> (ref \<Rightarrow> space) \<Rightarrow> (ref \<Rightarrow> space)" where
  "setFlag (SpaceRef r) isOccupied h = h(r := (h r)\<lparr> occupied := isOccupied \<rparr>)"
| "setFlag ExitObj isOccupied h = h"

fun setSpaceOccupied :: "target option \<Rightarrow> bool \<Rightarrow> world \<Rightarrow> world" where
  "setSpaceOccupied None isOccupied w = w"
| "setSpaceOccupied (Some t) isOccupied w =
     (if spacesIncludes (spaces (lot w)) t
      then w\<lparr> heap := setFlag t isOccupied (heap w),
              spaceMaterialColor := (if isOccupied then 0x555555 else 0x666666) \<rparr>
      else w)"

section \<open>Vehicles\<close>

datatype vstate = Moving | Waiting | Parked

text \<open>
  The fields of a \<open>Vehicle\<close>. \<open>v_position\<close> and \<open>v_rotation\<close> are \<open>this.position\<close> and
  \<open>this.rotation\<close>, which the constructor copies into the mesh and nothing reads again:
  the place and heading of the vehicle are \<open>mesh.position\<close> and \<open>mesh.rotation.y\<close>.
\<close>

record vehicle =
  v_type :: string
  v_position :: vec3
  v_rotation :: real
  color :: nat
  state :: vstate
  targetSpace :: "target option"
  waitTime :: real
  speed :: real
  maxSpeed :: real
  acceleration :: real
  turnSpeed :: real
  direction :: vec3
  mesh_position :: vec3
  mesh_rotation_y :: real

record vehicleOptions =
  optType :: "string option"
  optPosition :: "vec3 option"
  optRotation :: "real option"
  optColor :: "nat option"

definition newVehicle :: "vehicleOptions \<Rightarrow> vehicle" where
  "newVehicle opts =
     (let ty = (case optType opts of None \<Rightarrow> ''car'' | Some t \<Rightarrow> if t = [] then ''car'' else t);
          pos = (case optPosition opts of None \<Rightarrow> Vector3 0 0 0 | Some q \<Rightarrow> q);
          rot = orDefault (optRotation opts) 0
      in \<lparr> v_type = ty, v_position = pos, v_rotation = rot,
           color = orDefault (optColor opts) 0xff0000,
           state = Moving, targetSpace = None, waitTime = 0,
           speed = 0, maxSpeed = (if ty = ''car'' then 5 else 3),
           acceleration = 2, turnSpeed = pi / 4, direction = Vector3 0 0 1,
           mesh_position = pos, mesh_rotation_y = rot \<rparr>)"

definition findParkingSpace :: "world \<Rightarrow> vehicle \<Rightarrow> vehicle" where
  "findParkingSpace w v =
     (case findAvailableSpace w (mesh_position v) of
        Some s \<Rightarrow> v\<lparr> targetSpace := Some (SpaceRef s), state := Moving \<rparr>
      | None \<Rightarrow> v\<lparr> state := Waiting \<rparr>)"

definition leaveParking :: "world \<times> vehicle \<Rightarrow> world \<times> vehicle" where
  "leaveParking wv =
     (case wv of (w, v) \<Rightarrow>
        (case targetSpace v of
           None \<Rightarrow> (w, v)
         | Some t \<Rightarrow> (setSpaceOccupied (Some t) False w,
                      v\<lparr> targetSpace := Some ExitObj, state := Moving \<rparr>)))"

text \<open>
  The pieces of \<open>updateMoving\<close> for a vehicle that has a target \<open>t\<close>.

  \<open>targetPos\<close> is a clone of the target's position. \<open>targetPos.sub(...).normalize()\<close>
  overwrites that clone and returns it, so \<open>dirToTarget\<close> and \<open>targetPos\<close> are one object,
  holding the unit vector; the later \<open>this.mesh.position.distanceTo(targetPos)\<close> reads it.
\<close>

definition dirToTarget :: "world \<Rightarrow> vehicle \<Rightarrow> target \<Rightarrow> vec3" where
  "dirToTarget w v t = normalize (vsub (targetPosition w t) (mesh_position v))"

definition currentDirection :: "real \<Rightarrow> vec3" where
  "currentDirection rot = applyAxisAngleY (Vector3 0 0 1) rot"

definition moveDirection :: "real \<Rightarrow> vec3" where
  "moveDirection rot = applyAxisAngleY (Vector3 0 0 (- 1)) rot"

definition angleDiff :: "world \<Rightarrow> vehicle \<Rightarrow> target \<Rightarrow> real" where
  "angleDiff w v t =
     (let d = dirToTarget w v t; c = currentDirection (mesh_rotation_y v)
      in atan2 (vx d * vz c - vz d * vx c) (vx d * vx c + vz d * vz c))"

definition turnAmount :: "real \<Rightarrow> world \<Rightarrow> vehicle \<Rightarrow> target \<Rightarrow> real" where
  "turnAmount deltaTime w v t =
     min \<bar>angleDiff w v t\<bar> (turnSpeed v * deltaTime) * sign (angleDiff w v t)"

definition distanceToTarget :: "world \<Rightarrow> vehicle \<Rightarrow> target \<Rightarrow> real" where
  "distanceToTarget w v t = distanceTo (mesh_position v) (dirToTarget w v t)"

definition updateMoving :: "real \<Rightarrow> world \<times> vehicle \<Rightarrow> world \<times> vehicle" where
  "updateMoving deltaTime wv =
     (case wv of (w, v) \<Rightarrow>
        (case targetSpace v of
           None \<Rightarrow> (w, findParkingSpace w v)
         | Some t \<Rightarrow>
             (let v1 = v\<lparr> mesh_rotation_y := mesh_rotation_y v + turnAmount deltaTime w v t \<rparr>;
                  d = distanceToTarget w v t;
                  (w2, v2) =
                    (if d < 1 then
                       (setSpaceOccupied (Some t) True w,
                        v1\<lparr> speed := 0, state := Parked,
                            mesh_position := targetPosition w t,
                            mesh_rotation_y := targetRotation w t \<rparr>)
                     else if d < 5 then
                       (w, v1\<lparr> speed := max (speed v1 - acceleration v1 * deltaTime) (1 / 2) \<rparr>)
                     else
                       (w, v1\<lparr> speed := min (speed v1 + acceleration v1 * deltaTime)
                                              (maxSpeed v1) \<rparr>))
              in (w2, v2\<lparr> mesh_position :=
                            vadd (mesh_position v2)
                                 (multiplyScalar (moveDirection (mesh_rotation_y v2))
                                                 (speed v2 * deltaTime)) \<rparr>))))"

text \<open>
  \<open>update(deltaTime, parkingLot)\<close>. \<open>rnd\<close> is the value \<open>Math.random()\<close> returns if this
  call draws one (a parked vehicle does).
\<close>

definition update :: "real \<Rightarrow> real \<Rightarrow> world \<times> vehicle \<Rightarrow> world \<times> vehicle" where
  "update deltaTime rnd wv =
     (case wv of (w, v) \<Rightarrow>
        (case state v of
           Moving \<Rightarrow> updateMoving deltaTime (w, v)
         | Waiting \<Rightarrow>
             (let v1 = v\<lparr> waitTime := waitTime v + deltaTime \<rparr>
              in if waitTime v1 > 2
                 then (w, (findParkingSpace w v1)\<lparr> waitTime := 0 \<rparr>)
                 else (w, v1))
         | Parked \<Rightarrow> (if rnd < 1 / 1000 then leaveParking (w, v) else (w, v))))"

text \<open>
  The ticks of one vehicle: \<open>update\<close> called once per tick with that tick's elapsed time and
  random draw.
\<close>

fun runVehicle :: "(real \<times> real) list \<Rightarrow> world \<times> vehicle \<Rightarrow> world \<times> vehicle" where
  "runVehicle [] wv = wv"
| "runVehicle ((deltaTime, rnd) # ts) wv = runVehicle ts (update deltaTime rnd wv)"

text \<open>
  A vehicle that has left its space: its target is the exit object and it is not waiting.
\<close>

definition departed :: "vehicle \<Rightarrow> bool" where
  "departed u = (targetSpace u = Some ExitObj \<and> state u \<noteq> Waiting)"

definition isParked :: "vehicle \<Rightarrow> bool" where
  "isParked v = (state v = Parked)"

definition isMoving :: "vehicle \<Rightarrow> bool" where
  "isMoving v = (state v = Moving)"

definition getWaitTime :: "vehicle \<Rightarrow> real" where
  "getWaitTime v = (if state v = Waiting then waitTime v else 0)"

section \<open>The simulation\<close>

record stats =
  occupiedSpaces :: nat
  totalSpaces :: nat
  totalVehicles :: nat
  movingVehicles :: nat
  parkedVehicles :: nat
  waitingVehicles :: nat
  averageWaitTime :: real

record simulation =
  parkingLot :: world
  vehicles :: "vehicle list"
  running :: bool
  elapsedTime :: real
  simStats :: stats

record vehicleData =
  vd_type :: string
  vd_x :: real
  vd_z :: real
  vd_rotation :: real
  vd_color :: nat

record scenario =
  sc_parkingLot :: lotOptions
  initialVehicles :: "vehicleData list"

text \<open>
  The constructor of \<open>ParkingSimulation\<close>. \<open>this.parkingLot\<close> is null until a scenario is
  loaded; here it is a lot without spaces.
\<close>

definition noLot :: parkingLot where
  "noLot = \<lparr> rows = 0, columns = 0, spaceWidth = 0, spaceLength = 0, aisleWidth = 0,
              spaces = [], totalWidth = 0, totalLength = 0 \<rparr>"

definition newSimulation :: "(ref \<Rightarrow> space) \<Rightarrow> simulation" where
  "newSimulation h0 =
     \<lparr> parkingLot = \<lparr> heap = h0, spaceMaterialColor = 0, lot = noLot \<rparr>,
       vehicles = [], running = True, elapsedTime = 0,
       simStats = \<lparr> occupiedSpaces = 0, totalSpaces = 0, totalVehicles = 0,
                    movingVehicles = 0, parkedVehicles = 0, waitingVehicles = 0,
                    averageWaitTime = 0 \<rparr> \<rparr>"

definition loadCurrentScenario :: "scenario \<Rightarrow> simulation \<Rightarrow> simulation" where
  "loadCurrentScenario sc sim =
     (let w = newParkingLot (heap (parkingLot sim)) (sc_parkingLot sc);
          vs = map (\<lambda>d. newVehicle \<lparr> optType = Some (vd_type d),
                                     optPosition = Some (Vector3 (vd_x d) 0 (vd_z d)),
                                     optRotation = Some (vd_rotation d),
                                     optColor = Some (vd_color d) \<rparr>)
                   (initialVehicles sc)
      in sim\<lparr> parkingLot := w, vehicles := vs,
               simStats := (simStats sim)\<lparr> totalSpaces := getTotalSpaces w,
                                           totalVehicles := length vs \<rparr> \<rparr>)"

text \<open>The loop body of \<open>updateStats\<close>, on the counters \<open>(parked, moving, waiting, totalWaitTime)\<close>.\<close>

fun countVehicles :: "vehicle list \<Rightarrow> nat \<times> nat \<times> nat \<times> real \<Rightarrow> nat \<times> nat \<times> nat \<times> real" where
  "countVehicles [] acc = acc"
| "countVehicles (v # vs) (parked, moving, waiting, totalWaitTime) =
     countVehicles vs
       (if isParked v then (parked + 1, moving, waiting, totalWaitTime + getWaitTime v)
        else if isMoving v then (parked, moving + 1, waiting, totalWaitTime + getWaitTime v)
        else (parked, moving, waiting + 1, totalWaitTime + getWaitTime v))"

definition updateStats :: "simulation \<Rightarrow> simulation" where
  "updateStats sim =
     (case countVehicles (vehicles sim) (0, 0, 0, 0) of
        (parked, moving, waiting, totalWaitTime) \<Rightarrow>
          sim\<lparr> simStats := (simStats sim)\<lparr>
                  occupiedSpaces := parked,
                  movingVehicles := moving,
                  parkedVehicles := parked,
                  waitingVehicles := waiting,
                  averageWaitTime :=
                    (if length (vehicles sim) > 0
                     then totalWaitTime / real (length (vehicles sim)) else 0) \<rparr> \<rparr>)"

text \<open>
  \<open>this.vehicles.forEach(vehicle => vehicle.update(deltaTime, this.parkingLot))\<close>: the
  vehicles are updated in array order against the one lot. \<open>rnd i\<close> is the random draw of
  the vehicle at index \<open>i\<close>.
\<close>

fun updateVehicles :: "real \<Rightarrow> (nat \<Rightarrow> real) \<Rightarrow> nat \<Rightarrow> world \<Rightarrow> vehicle list \<Rightarrow> world \<times> vehicle list" where
  "updateVehicles deltaTime rnd i w [] = (w, [])"
| "updateVehicles deltaTime rnd i w (v # vs) =
     (case update deltaTime (rnd i) (w, v) of
        (w1, v1) \<Rightarrow>
          (case updateVehicles deltaTime rnd (Suc i) w1 vs of
             (w2, vs1) \<Rightarrow> (w2, v1 # vs1)))"

text \<open>
  One tick, \<open>ParkingSimulation.update()\<close>; \<open>deltaTime\<close> is what \<open>clock.getDelta()\<close> returns.
  Camera controls and rendering change nothing of the state modelled here.
\<close>

definition simUpdate :: "real \<Rightarrow> (nat \<Rightarrow> real) \<Rightarrow> simulation \<Rightarrow> simulation" where
  "simUpdate deltaTime rnd sim =
     (case updateVehicles deltaTime rnd 0 (parkingLot sim) (vehicles sim) of
        (w, vs) \<Rightarrow>
          updateStats (sim\<lparr> elapsedTime := elapsedTime sim + deltaTime,
                            parkingLot := w, vehicles := vs \<rparr>))"

text \<open>A session: the ticks the host loop runs, each with its elapsed time and random draws.\<close>

fun runTicks :: "(real \<times> (nat \<Rightarrow> real)) list \<Rightarrow> simulation \<Rightarrow> simulation" where
  "runTicks [] sim = sim"
| "runTicks ((deltaTime, rnd) # ts) sim = runTicks ts (simUpdate deltaTime rnd sim)"

section \<open>Concrete data\<close>

text \<open>
  A lot with one row and one column: two spaces, at \<open>(0, 0, -7)\<close> facing \<open>pi\<close> and at
  \<open>(0, 0, 7)\<close> facing \<open>0\<close>. The theorems below are run on it.
\<close>

definition blankSpace :: space where
  "blankSpace = \<lparr> row = 0, col = 0, side = 0, position = Vector3 0 0 0, rotation = 0,
                   occupied = False \<rparr>"

definition smallLot :: lotOptions where
  "smallLot = \<lparr> optRows = Some 1, optColumns = Some 1, optSpaceWidth = Some 3,
                 optSpaceLength = Some 6, optAisleWidth = Some 8 \<rparr>"

definition smallWorld :: world where
  "smallWorld = newParkingLot (\<lambda>a. blankSpace) smallLot"

text \<open>
  A lot with small spaces, also one row and one column: its two spaces are at
  \<open>(0, 0, -1/2)\<close> and \<open>(0, 0, 1/2)\<close>.
\<close>

definition tinyLot :: lotOptions where
  "tinyLot = \<lparr> optRows = Some 1, optColumns = Some 1, optSpaceWidth = Some 1,
                optSpaceLength = Some (1 / 2), optAisleWidth = Some (1 / 2) \<rparr>"

definition tinyWorld :: world where
  "tinyWorld = newParkingLot (\<lambda>a. blankSpace) tinyLot"

text \<open>The loop invariant of \<open>findAvailableSpace\<close>: \<open>closestDistance\<close> is the distance of
  \<open>closestSpace\<close>, and \<open>Infinity\<close> while there is none.\<close>

definition accOK :: "(ref \<Rightarrow> space) \<Rightarrow> vec3 \<Rightarrow> ref option \<Rightarrow> bound \<Rightarrow> bool" where
  "accOK h p cs cd = (case cs of None \<Rightarrow> cd = Infinity
                      | Some c \<Rightarrow> cd = Finite (distanceTo p (position (h c))))"

text \<open>A car at a given place and heading, as the constructor makes it.\<close>

definition carAt :: "vec3 \<Rightarrow> real \<Rightarrow> vehicle" where
  "carAt p rot = newVehicle \<lparr> optType = Some ''car'', optPosition = Some p,
                             optRotation = Some rot, optColor = None \<rparr>"

text \<open>
  Cars on the small lot, each with the target that \<open>findParkingSpace\<close> gives it there (the
  space at \<open>(0, 0, 7)\<close>): one 13 units from it and heading sideways, one half a unit
  from it, one 4 units from it.
\<close>

definition steerCar :: vehicle where
  "steerCar = findParkingSpace smallWorld (carAt (Vector3 0 0 20) (pi / 2))"

definition almostThereCar :: vehicle where
  "almostThereCar = findParkingSpace smallWorld (carAt (Vector3 0 0 (13 / 2)) 0)"

definition nearCar :: vehicle where
  "nearCar = findParkingSpace smallWorld (carAt (Vector3 0 0 3) 0)"

text \<open>
  A session with a waiting car whose wait timer is at 3 and a moving car whose wait timer
  field holds 1.
\<close>

definition waitingCar :: vehicle where
  "waitingCar = (carAt (Vector3 0 0 20) 0)\<lparr> state := Waiting, waitTime := 3 \<rparr>"

definition timedCar :: vehicle where
  "timedCar = (carAt (Vector3 0 0 3) 0)\<lparr> waitTime := 1 \<rparr>"

definition waitingSim :: simulation where
  "waitingSim = (newSimulation (\<lambda>a. blankSpace))\<lparr> parkingLot := smallWorld,
                                                     vehicles := [waitingCar, timedCar] \<rparr>"

text \<open>A car that has left its space and is half a unit from the exit point, facing it.\<close>

definition leavingCar :: vehicle where
  "leavingCar = (carAt (Vector3 (- (99 / 2)) 0 0) (- (pi / 2)))\<lparr> targetSpace := Some ExitObj \<rparr>"

text \<open>A car on the lot with small spaces that parks in one tick, and the state after that tick.\<close>

definition parkingStep :: "world \<times> vehicle" where
  "parkingStep = update (1 / 60) (1 / 2)
     (tinyWorld, findParkingSpace tinyWorld (carAt (Vector3 0 0 (1 / 10)) 0))"

text \<open>
  A session with two cars on the lot with small spaces, at \<open>(0, 0, 1/10)\<close> and
  \<open>(0, 0, 1/5)\<close>, and its state after two ticks of a sixtieth of a second.
\<close>

definition pairOfCars :: scenario where
  "pairOfCars = \<lparr> sc_parkingLot = tinyLot,
               initialVehicles =
                 [\<lparr> vd_type = ''car'', vd_x = 0, vd_z = 1 / 10, vd_rotation = 0, vd_color = 0xff0000 \<rparr>,
                  \<lparr> vd_type = ''car'', vd_x = 0, vd_z = 1 / 5, vd_rotation = 0, vd_color = 0x0000ff \<rparr>] \<rparr>"

definition pairStart :: simulation where
  "pairStart = loadCurrentScenario pairOfCars (newSimulation (\<lambda>a. blankSpace))"

definition pairLater :: simulation where
  "pairLater = runTicks [(1 / 60, \<lambda>i. 1 / 2), (1 / 60, \<lambda>i. 1 / 2)] pairStart"

section \<open>Evaluating the concrete lot\<close>

lemma distanceTo_z [simp]: "distanceTo (Vector3 a b c) (Vector3 a b d) = \<bar>c - d\<bar>"
  by (simp add: distanceTo_def)

lemma vlength_z [simp]: "vlength (Vector3 0 0 c) = \<bar>c\<bar>"
  by (simp add: vlength_def)

lemma smallWorld_spaces: "spaces (lot smallWorld) = [0, 1]"
  by (simp add: smallWorld_def newParkingLot_def smallLot_def orDefault_def
      createParkingSpaces_def Let_def upt_conv_Cons)

lemma smallWorld_heap0:
  "heap smallWorld 0 = \<lparr> row = 0, col = 0, side = 0, position = Vector3 0 0 (- 7),
                          rotation = pi, occupied = False \<rparr>"
  by (simp add: smallWorld_def newParkingLot_def smallLot_def orDefault_def
      createParkingSpaces_def mkSpace_def Let_def upt_conv_Cons)

lemma smallWorld_heap1:
  "heap smallWorld (Suc 0) = \<lparr> row = 0, col = 0, side = 1, position = Vector3 0 0 7,
                                rotation = 0, occupied = False \<rparr>"
  by (simp add: smallWorld_def newParkingLot_def smallLot_def orDefault_def
      createParkingSpaces_def mkSpace_def Let_def upt_conv_Cons)

lemmas small_eval = findParkingSpace_def findAvailableSpace_def smallWorld_spaces
  smallWorld_heap0 smallWorld_heap1 carAt_def newVehicle_def orDefault_def Let_def
lemmas move_eval = updateMoving_def dirToTarget_def normalize_def vsub_def
  multiplyScalar_def vadd_def currentDirection_def moveDirection_def applyAxisAngleY_def
  angleDiff_def atan2_def turnAmount_def sign_def distanceToTarget_def

lemma tinyWorld_spaces: "spaces (lot tinyWorld) = [0, 1]"
  by (simp add: tinyWorld_def newParkingLot_def tinyLot_def orDefault_def
      createParkingSpaces_def Let_def upt_conv_Cons)

lemma tinyWorld_heap0:
  "heap tinyWorld 0 = \<lparr> row = 0, col = 0, side = 0, position = Vector3 0 0 (- (1 / 2)),
                          rotation = pi, occupied = False \<rparr>"
  by (simp add: tinyWorld_def newParkingLot_def tinyLot_def orDefault_def
      createParkingSpaces_def mkSpace_def Let_def upt_conv_Cons)

lemma tinyWorld_heap1:
  "heap tinyWorld (Suc 0) = \<lparr> row = 0, col = 0, side = 1, position = Vector3 0 0 (1 / 2),
                                rotation = 0, occupied = False \<rparr>"
  by (simp add: tinyWorld_def newParkingLot_def tinyLot_def orDefault_def
      createParkingSpaces_def mkSpace_def Let_def upt_conv_Cons)

lemmas tiny_eval = findParkingSpace_def findAvailableSpace_def tinyWorld_spaces
  tinyWorld_heap0 tinyWorld_heap1 carAt_def newVehicle_def orDefault_def Let_def

lemma distanceTo_x [simp]: "distanceTo (Vector3 a b c) (Vector3 d b c) = \<bar>a - d\<bar>"
  by (simp add: distanceTo_def)

lemma vlength_x [simp]: "vlength (Vector3 c 0 0) = \<bar>c\<bar>"
  by (simp add: vlength_def)

lemma parkingStep_eq:
  "parkingStep = (setSpaceOccupied (Some (SpaceRef (Suc 0))) True tinyWorld,
     (carAt (Vector3 0 0 (1 / 10)) 0)\<lparr> targetSpace := Some (SpaceRef (Suc 0)), state := Parked,
        mesh_position := Vector3 0 0 (1 / 2) \<rparr>)"
  by (simp add: parkingStep_def update_def tiny_eval move_eval)

section \<open>The nearest available space\<close>

lemma scanSpaces_None:
  "accOK h p cs cd \<Longrightarrow>
   (scanSpaces h p ss cs cd = None) = (cs = None \<and> (\<forall>s\<in>set ss. occupied (h s)))"
proof (induction ss arbitrary: cs cd)
  case Nil
  then show ?case by simp
next
  case (Cons s ss)
  show ?case
  proof (cases "occupied (h s)")
    case True
    with Cons show ?thesis by simp
  next
    case False
    have ok: "accOK h p (Some s) (Finite (distanceTo p (position (h s))))"
      by (simp add: accOK_def)
    show ?thesis
    proof (cases "below (distanceTo p (position (h s))) cd")
      case True
      with False Cons.IH[OF ok] show ?thesis by (simp add: Let_def)
    next
      case nb: False
      then have "cs \<noteq> None" using Cons.prems by (auto simp: accOK_def split: option.splits)
      with nb False Cons.IH[OF Cons.prems] show ?thesis by (simp add: Let_def)
    qed
  qed
qed

lemma scanSpaces_Some:
  "accOK h p cs cd \<Longrightarrow> scanSpaces h p ss cs cd = Some r \<Longrightarrow>
   (cs = Some r \<and> (\<forall>s\<in>set ss. \<not> occupied (h s) \<longrightarrow>
        distanceTo p (position (h r)) \<le> distanceTo p (position (h s))))
   \<or> (\<exists>i<length ss. ss ! i = r \<and> \<not> occupied (h r)
        \<and> (\<forall>c. cs = Some c \<longrightarrow> distanceTo p (position (h r)) < distanceTo p (position (h c)))
        \<and> (\<forall>j<i. \<not> occupied (h (ss ! j)) \<longrightarrow>
               distanceTo p (position (h r)) < distanceTo p (position (h (ss ! j))))
        \<and> (\<forall>s\<in>set ss. \<not> occupied (h s) \<longrightarrow>
               distanceTo p (position (h r)) \<le> distanceTo p (position (h s))))"
proof (induction ss arbitrary: cs cd)
  case Nil
  then show ?case by simp
next
  case (Cons s ss)
  let ?D = "\<lambda>a. distanceTo p (position (h a))"
  show ?case
  proof (cases "occupied (h s)")
    case True
    with Cons.prems have "scanSpaces h p ss cs cd = Some r" by simp
    from Cons.IH[OF Cons.prems(1) this] show ?thesis
    proof
      assume "cs = Some r \<and> (\<forall>s\<in>set ss. \<not> occupied (h s) \<longrightarrow> ?D r \<le> ?D s)"
      with True show ?thesis by auto
    next
      assume "\<exists>i<length ss. ss ! i = r \<and> \<not> occupied (h r)
        \<and> (\<forall>c. cs = Some c \<longrightarrow> ?D r < ?D c)
        \<and> (\<forall>j<i. \<not> occupied (h (ss ! j)) \<longrightarrow> ?D r < ?D (ss ! j))
        \<and> (\<forall>s\<in>set ss. \<not> occupied (h s) \<longrightarrow> ?D r \<le> ?D s)"
      then obtain i where i: "i < length ss" "ss ! i = r" "\<not> occupied (h r)"
        "\<forall>c. cs = Some c \<longrightarrow> ?D r < ?D c"
        "\<forall>j<i. \<not> occupied (h (ss ! j)) \<longrightarrow> ?D r < ?D (ss ! j)"
        "\<forall>s\<in>set ss. \<not> occupied (h s) \<longrightarrow> ?D r \<le> ?D s" by blast
      have "\<forall>j<Suc i. \<not> occupied (h ((s # ss) ! j)) \<longrightarrow> ?D r < ?D ((s # ss) ! j)"
        using i(5) True by (auto simp: less_Suc_eq_0_disj)
      with i True have "Suc i < length (s # ss) \<and> (s # ss) ! Suc i = r \<and> \<not> occupied (h r)
        \<and> (\<forall>c. cs = Some c \<longrightarrow> ?D r < ?D c)
        \<and> (\<forall>j<Suc i. \<not> occupied (h ((s # ss) ! j)) \<longrightarrow> ?D r < ?D ((s # ss) ! j))
        \<and> (\<forall>s'\<in>set (s # ss). \<not> occupied (h s') \<longrightarrow> ?D r \<le> ?D s')" by auto
      then show ?thesis by blast
    qed
  next
    case free: False
    have ok: "accOK h p (Some s) (Finite (?D s))" by (simp add: accOK_def)
    show ?thesis
    proof (cases "below (?D s) cd")
      case True
      with free Cons.prems have run: "scanSpaces h p ss (Some s) (Finite (?D s)) = Some r"
        by (simp add: Let_def)
      have lt: "\<forall>c. cs = Some c \<longrightarrow> ?D s < ?D c"
        using True Cons.prems(1) by (auto simp: accOK_def)
      from Cons.IH[OF ok run] show ?thesis
      proof
        assume a: "Some s = Some r \<and> (\<forall>s\<in>set ss. \<not> occupied (h s) \<longrightarrow> ?D r \<le> ?D s)"
        with free lt have "0 < length (s # ss) \<and> (s # ss) ! 0 = r \<and> \<not> occupied (h r)
          \<and> (\<forall>c. cs = Some c \<longrightarrow> ?D r < ?D c)
          \<and> (\<forall>j<0. \<not> occupied (h ((s # ss) ! j)) \<longrightarrow> ?D r < ?D ((s # ss) ! j))
          \<and> (\<forall>s'\<in>set (s # ss). \<not> occupied (h s') \<longrightarrow> ?D r \<le> ?D s')" by auto
        then show ?thesis by blast
      next
        assume "\<exists>i<length ss. ss ! i = r \<and> \<not> occupied (h r)
          \<and> (\<forall>c. Some s = Some c \<longrightarrow> ?D r < ?D c)
          \<and> (\<forall>j<i. \<not> occupied (h (ss ! j)) \<longrightarrow> ?D r < ?D (ss ! j))
          \<and> (\<forall>s\<in>set ss. \<not> occupied (h s) \<longrightarrow> ?D r \<le> ?D s)"
        then obtain i where i: "i < length ss" "ss ! i = r" "\<not> occupied (h r)"
          "?D r < ?D s"
          "\<forall>j<i. \<not> occupied (h (ss ! j)) \<longrightarrow> ?D r < ?D (ss ! j)"
          "\<forall>s\<in>set ss. \<not> occupied (h s) \<longrightarrow> ?D r \<le> ?D s" by blast
        have "\<forall>j<Suc i. \<not> occupied (h ((s # ss) ! j)) \<longrightarrow> ?D r < ?D ((s # ss) ! j)"
          using i(4,5) by (auto simp: less_Suc_eq_0_disj)
        moreover have "\<forall>c. cs = Some c \<longrightarrow> ?D r < ?D c" using lt i(4) by fastforce
        ultimately have "Suc i < length (s # ss) \<and> (s # ss) ! Suc i = r \<and> \<not> occupied (h r)
          \<and> (\<forall>c. cs = Some c \<longrightarrow> ?D r < ?D c)
          \<and> (\<forall>j<Suc i. \<not> occupied (h ((s # ss) ! j)) \<longrightarrow> ?D r < ?D ((s # ss) ! j))
          \<and> (\<forall>s'\<in>set (s # ss). \<not> occupied (h s') \<longrightarrow> ?D r \<le> ?D s')"
          using i by auto
        then show ?thesis by blast
      qed
    next
      case nb: False
      with free Cons.prems have run: "scanSpaces h p ss cs cd = Some r" by (simp add: Let_def)
      from nb Cons.prems(1) obtain c where c: "cs = Some c" "?D c \<le> ?D s"
        by (auto simp: accOK_def split: option.splits)
      from Cons.IH[OF Cons.prems(1) run] show ?thesis
      proof
        assume "cs = Some r \<and> (\<forall>s\<in>set ss. \<not> occupied (h s) \<longrightarrow> ?D r \<le> ?D s)"
        with c show ?thesis by auto
      next
        assume "\<exists>i<length ss. ss ! i = r \<and> \<not> occupied (h r)
          \<and> (\<forall>c. cs = Some c \<longrightarrow> ?D r < ?D c)
          \<and> (\<forall>j<i. \<not> occupied (h (ss ! j)) \<longrightarrow> ?D r < ?D (ss ! j))
          \<and> (\<forall>s\<in>set ss. \<not> occupied (h s) \<longrightarrow> ?D r \<le> ?D s)"
        then obtain i where i: "i < length ss" "ss ! i = r" "\<not> occupied (h r)"
          "\<forall>c. cs = Some c \<longrightarrow> ?D r < ?D c"
          "\<forall>j<i. \<not> occupied (h (ss ! j)) \<longrightarrow> ?D r < ?D (ss ! j)"
          "\<forall>s\<in>set ss. \<not> occupied (h s) \<longrightarrow> ?D r \<le> ?D s" by blast
        from i(4) c have rs: "?D r < ?D s" by fastforce
        have "\<forall>j<Suc i. \<not> occupied (h ((s # ss) ! j)) \<longrightarrow> ?D r < ?D ((s # ss) ! j)"
          using i(5) rs by (auto simp: less_Suc_eq_0_disj)
        with i rs have "Suc i < length (s # ss) \<and> (s # ss) ! Suc i = r \<and> \<not> occupied (h r)
          \<and> (\<forall>c. cs = Some c \<longrightarrow> ?D r < ?D c)
          \<and> (\<forall>j<Suc i. \<not> occupied (h ((s # ss) ! j)) \<longrightarrow> ?D r < ?D ((s # ss) ! j))
          \<and> (\<forall>s'\<in>set (s # ss). \<not> occupied (h s') \<longrightarrow> ?D r \<le> ?D s')" by auto
        then show ?thesis by blast
      qed
    qed
  qed
qed

text \<open>
  C3. \<open>findAvailableSpace\<close> returns none exactly when every space of the lot is occupied.
  A space it returns is unoccupied, no unoccupied space of the lot is nearer to the query
  position, and it is the first such space in iteration order: every unoccupied space
  before it in the array is strictly farther away.
\<close>

theorem findAvailableSpace_nearest_free:
  "(findAvailableSpace w p = None \<longleftrightarrow> (\<forall>s\<in>set (spaces (lot w)). occupied (heap w s)))
   \<and> (\<forall>r. findAvailableSpace w p = Some r \<longrightarrow>
        \<not> occupied (heap w r)
        \<and> (\<forall>s\<in>set (spaces (lot w)). \<not> occupied (heap w s) \<longrightarrow>
              distanceTo p (position (heap w r)) \<le> distanceTo p (position (heap w s)))
        \<and> (\<exists>i<length (spaces (lot w)). spaces (lot w) ! i = r
              \<and> (\<forall>j<i. \<not> occupied (heap w (spaces (lot w) ! j)) \<longrightarrow>
                    distanceTo p (position (heap w r))
                      < distanceTo p (position (heap w (spaces (lot w) ! j))))))"
proof -
  have ok: "accOK (heap w) p None Infinity" by (simp add: accOK_def)
  show ?thesis
    unfolding findAvailableSpace_def
    using scanSpaces_None[OF ok, of "spaces (lot w)"] scanSpaces_Some[OF ok, of "spaces (lot w)"]
    by blast
qed

theorem findAvailableSpace_nearest_free_witness:
  "findAvailableSpace smallWorld (Vector3 0 0 (1 / 2)) = Some 1
   \<and> \<not> occupied (heap smallWorld 1)
   \<and> distanceTo (Vector3 0 0 (1 / 2)) (position (heap smallWorld 1))
       \<le> distanceTo (Vector3 0 0 (1 / 2)) (position (heap smallWorld 0))"
proof -
  have e: "findAvailableSpace smallWorld (Vector3 0 0 (1 / 2)) = Some 1"
    by (simp add: findAvailableSpace_def smallWorld_spaces smallWorld_heap0 smallWorld_heap1)
  with findAvailableSpace_nearest_free[of smallWorld "Vector3 0 0 (1 / 2)"]
  show ?thesis by (simp add: smallWorld_spaces smallWorld_heap0 smallWorld_heap1)
qed

section \<open>Marking a space\<close>

lemma setFlag_other: "t \<noteq> SpaceRef r \<Longrightarrow> setFlag t b h r = h r"
  by (cases t) auto

lemma setFlag_fields: "(setFlag t b h r)\<lparr> occupied := occupied (h r) \<rparr> = h r"
  by (cases t) auto

text \<open>
  C7. \<open>setSpaceOccupied\<close> never changes the lot record, so the array of spaces and its
  length stay as they are. Given a space of the lot it sets that space's flag to the given
  boolean. Given anything that is not a space of the lot (a foreign space, the exit object,
  null) it returns the state unchanged. In all cases every other space object is left as
  it is, and of the given space only the flag changes; the one other cell written is the
  colour of the material of the space meshes, which keeps its value or becomes the tint
  for the given boolean.
\<close>

theorem setSpaceOccupied_frame:
  "lot (setSpaceOccupied a b w) = lot w
   \<and> (\<forall>r. a = Some (SpaceRef r) \<and> r \<in> set (spaces (lot w)) \<longrightarrow>
          occupied (heap (setSpaceOccupied a b w) r) = b)
   \<and> ((\<forall>r. a = Some (SpaceRef r) \<longrightarrow> r \<notin> set (spaces (lot w))) \<longrightarrow>
          setSpaceOccupied a b w = w)
   \<and> (\<forall>r. a \<noteq> Some (SpaceRef r) \<longrightarrow> heap (setSpaceOccupied a b w) r = heap w r)
   \<and> (\<forall>r. (heap (setSpaceOccupied a b w) r)\<lparr> occupied := occupied (heap w r) \<rparr> = heap w r)
   \<and> (spaceMaterialColor (setSpaceOccupied a b w) = spaceMaterialColor w
        \<or> spaceMaterialColor (setSpaceOccupied a b w) = (if b then 0x555555 else 0x666666))"
proof (cases a)
  case None
  then show ?thesis by simp
next
  case (Some t)
  show ?thesis
  proof (cases t)
    case (SpaceRef q)
    with Some show ?thesis by auto
  next
    case ExitObj
    with Some show ?thesis by simp
  qed
qed

theorem setSpaceOccupied_frame_witness:
  "occupied (heap (setSpaceOccupied (Some (SpaceRef 1)) True smallWorld) 1)
   \<and> heap (setSpaceOccupied (Some (SpaceRef 1)) True smallWorld) 0 = heap smallWorld 0
   \<and> setSpaceOccupied (Some (SpaceRef 5)) True smallWorld = smallWorld"
  using setSpaceOccupied_frame[of "Some (SpaceRef 1)" True smallWorld]
    setSpaceOccupied_frame[of "Some (SpaceRef 5)" True smallWorld]
  by (simp add: smallWorld_spaces)

section \<open>The number of spaces\<close>

lemma length_createParkingSpaces:
  "length (createParkingSpaces l) = 2 * rows l * columns l"
proof -
  have inner: "\<And>sd. length (concat (map (\<lambda>rw. map (\<lambda>cl. mkSpace l sd rw cl) [0..<columns l]) [0..<rows l])) = rows l * columns l"
    by (simp add: length_concat comp_def sum_list_triv)
  have "[0..<2] = [0, Suc 0]" by (simp add: upt_conv_Cons)
  then show ?thesis
    by (simp add: createParkingSpaces_def inner)
qed

lemma lot_setSpaceOccupied: "lot (setSpaceOccupied a b w) = lot w"
  by (cases a) auto

lemma lot_updateMoving: "lot (fst (updateMoving dt (w, v))) = lot w"
  by (auto simp: updateMoving_def Let_def lot_setSpaceOccupied split: option.splits prod.splits)

lemma lot_leaveParking: "lot (fst (leaveParking (w, v))) = lot w"
  by (auto simp: leaveParking_def lot_setSpaceOccupied split: option.splits)

lemma lot_update: "lot (fst (update dt rnd (w, v))) = lot w"
  by (auto simp: update_def Let_def lot_updateMoving lot_leaveParking split: vstate.splits)

lemma lot_updateVehicles: "lot (fst (updateVehicles dt rnd i w vs)) = lot w"
proof (induction vs arbitrary: i w)
  case Nil
  then show ?case by simp
next
  case (Cons v vs)
  obtain w1 v1 where u: "update dt (rnd i) (w, v) = (w1, v1)" by (cases "update dt (rnd i) (w, v)")
  then have "lot w1 = lot w" using lot_update[of dt "rnd i" w v] by simp
  with Cons.IH[of "Suc i" w1] u show ?case by (auto split: prod.splits)
qed

lemma parkingLot_updateStats: "parkingLot (updateStats sim) = parkingLot sim"
  by (simp add: updateStats_def split: prod.splits)

lemma lot_simUpdate: "lot (parkingLot (simUpdate dt rnd sim)) = lot (parkingLot sim)"
  using lot_updateVehicles[of dt rnd 0 "parkingLot sim" "vehicles sim"]
  by (auto simp: simUpdate_def parkingLot_updateStats split: prod.splits)

lemma lot_runTicks: "lot (parkingLot (runTicks ts sim)) = lot (parkingLot sim)"
  by (induction ts sim rule: runTicks.induct) (simp_all add: lot_simUpdate)

text \<open>
  C8. A constructed lot has \<open>2 * rows * columns\<close> spaces, where \<open>rows\<close> and \<open>columns\<close> are
  the lot's fields (the options, or the defaults 3 and 5 for an omitted or zero option).
  After a scenario is loaded, no run of ticks changes the array of spaces, and neither
  does \<open>setSpaceOccupied\<close> or the update of a vehicle.
\<close>

theorem spaces_count_fixed:
  "length (spaces (lot (newParkingLot h0 opts)))
     = 2 * rows (lot (newParkingLot h0 opts)) * columns (lot (newParkingLot h0 opts))
   \<and> rows (lot (newParkingLot h0 opts)) = orDefault (optRows opts) 3
   \<and> columns (lot (newParkingLot h0 opts)) = orDefault (optColumns opts) 5
   \<and> getTotalSpaces (parkingLot (runTicks ts (loadCurrentScenario sc sim)))
       = 2 * rows (lot (parkingLot (loadCurrentScenario sc sim)))
           * columns (lot (parkingLot (loadCurrentScenario sc sim)))
   \<and> spaces (lot (parkingLot (runTicks ts (loadCurrentScenario sc sim))))
       = spaces (lot (parkingLot (loadCurrentScenario sc sim)))
   \<and> spaces (lot (setSpaceOccupied a b w)) = spaces (lot w)
   \<and> spaces (lot (fst (update dt rnd (w, v)))) = spaces (lot w)"
proof -
  have c: "\<And>h o'. length (spaces (lot (newParkingLot h o')))
     = 2 * rows (lot (newParkingLot h o')) * columns (lot (newParkingLot h o'))"
    by (simp add: newParkingLot_def Let_def length_createParkingSpaces)
  have l: "parkingLot (loadCurrentScenario sc sim) = newParkingLot (heap (parkingLot sim)) (sc_parkingLot sc)"
    by (simp add: loadCurrentScenario_def Let_def)
  show ?thesis
    by (simp add: c getTotalSpaces_def lot_runTicks l lot_setSpaceOccupied lot_update)
       (simp add: newParkingLot_def Let_def)
qed

theorem spaces_count_fixed_witness:
  "length (spaces (lot (newParkingLot (\<lambda>a. blankSpace) smallLot))) = 2"
  using spaces_count_fixed[of "\<lambda>a. blankSpace" smallLot]
  by (simp add: smallLot_def orDefault_def)

section \<open>Statistics\<close>

lemma countVehicles_total:
  "snd (snd (snd (countVehicles vs (a, b, c, t)))) = t + sum_list (map getWaitTime vs)"
  by (induction vs arbitrary: a b c t) (simp_all add: add.assoc)

lemma vehicles_updateStats: "vehicles (updateStats sim) = vehicles sim"
  by (simp add: updateStats_def split: prod.splits)

lemma averageWaitTime_updateStats:
  "averageWaitTime (simStats (updateStats sim))
     = (if vehicles sim = [] then 0
        else sum_list (map getWaitTime (vehicles sim)) / real (length (vehicles sim)))"
proof -
  obtain a b c t where cv: "countVehicles (vehicles sim) (0, 0, 0, 0) = (a, b, c, t)"
    by (cases "countVehicles (vehicles sim) (0, 0, 0, 0)") auto
  with countVehicles_total[of "vehicles sim" 0 0 0 0]
  have "t = sum_list (map getWaitTime (vehicles sim))" by simp
  with cv show ?thesis by (simp add: updateStats_def)
qed

text \<open>
  C9. After \<open>updateStats\<close>, and so after every tick, \<open>averageWaitTime\<close> is 0 when there is
  no vehicle, and otherwise the arithmetic mean over all vehicles of the wait contribution
  of each: its wait timer if the vehicle is in state \<open>Waiting\<close>, and 0 if it is in any
  other state.
\<close>

theorem averageWaitTime_mean:
  "averageWaitTime (simStats (updateStats sim))
     = (if vehicles sim = [] then 0
        else sum_list (map (\<lambda>v. if state v = Waiting then waitTime v else 0) (vehicles sim))
               / real (length (vehicles sim)))
   \<and> averageWaitTime (simStats (simUpdate dt rnd sim))
     = (if vehicles (simUpdate dt rnd sim) = [] then 0
        else sum_list (map (\<lambda>v. if state v = Waiting then waitTime v else 0)
                           (vehicles (simUpdate dt rnd sim)))
               / real (length (vehicles (simUpdate dt rnd sim))))"
proof -
  have g: "getWaitTime = (\<lambda>v. if state v = Waiting then waitTime v else 0)"
    by (rule ext) (simp add: getWaitTime_def)
  obtain w vs where u: "updateVehicles dt rnd 0 (parkingLot sim) (vehicles sim) = (w, vs)"
    by (cases "updateVehicles dt rnd 0 (parkingLot sim) (vehicles sim)")
  then have "simUpdate dt rnd sim
     = updateStats (sim\<lparr> elapsedTime := elapsedTime sim + dt, parkingLot := w, vehicles := vs \<rparr>)"
    by (simp add: simUpdate_def)
  then show ?thesis
    by (simp only: averageWaitTime_updateStats vehicles_updateStats g)
qed

theorem averageWaitTime_mean_witness:
  "map state (vehicles waitingSim) = [Waiting, Moving]
   \<and> map waitTime (vehicles waitingSim) = [3, 1]
   \<and> averageWaitTime (simStats (updateStats waitingSim)) = 3 / 2
   \<and> averageWaitTime (simStats (updateStats (waitingSim\<lparr> vehicles := [] \<rparr>))) = 0"
  using averageWaitTime_mean[of waitingSim] averageWaitTime_mean[of "waitingSim\<lparr> vehicles := [] \<rparr>"]
  by (simp add: waitingSim_def waitingCar_def timedCar_def carAt_def newVehicle_def Let_def)

section \<open>Leaving a space\<close>

lemma setSpaceOccupied_exit: "setSpaceOccupied (Some ExitObj) b w = w"
  by simp

lemma departed_updateMoving:
  "departed u \<Longrightarrow> fst (updateMoving dt (w, u)) = w \<and> departed (snd (updateMoving dt (w, u)))"
  by (simp add: departed_def updateMoving_def Let_def)

lemma departed_leaveParking:
  "departed u \<Longrightarrow> fst (leaveParking (w, u)) = w \<and> departed (snd (leaveParking (w, u)))"
  by (simp add: departed_def leaveParking_def)

lemma departed_update:
  "departed u \<Longrightarrow> fst (update dt rnd (w, u)) = w \<and> departed (snd (update dt rnd (w, u)))"
proof (cases "state u")
  case Moving
  assume "departed u"
  with Moving departed_updateMoving[of u dt w] show ?thesis by (simp add: update_def)
next
  case Waiting
  assume "departed u"
  with Waiting show ?thesis by (simp add: departed_def)
next
  case Parked
  assume "departed u"
  with Parked departed_leaveParking[of u w] show ?thesis by (simp add: update_def)
qed

lemma departed_runVehicle:
  "departed u \<Longrightarrow> fst (runVehicle ts (w, u)) = w \<and> departed (snd (runVehicle ts (w, u)))"
proof (induction ts arbitrary: w u)
  case Nil
  then show ?case by simp
next
  case (Cons t ts)
  obtain dt rnd where t: "t = (dt, rnd)" by (cases t)
  obtain w1 u1 where s: "update dt rnd (w, u) = (w1, u1)" by (cases "update dt rnd (w, u)")
  with departed_update[OF Cons.prems, of dt rnd w] have "w1 = w" "departed u1" by simp_all
  with Cons.IH[of u1 w] t s show ?case by simp
qed

text \<open>
  C5. When the departure check of a parked vehicle fires (the random draw is below 0.001)
  and the vehicle's target is a space of the lot, the tick is \<open>leaveParking\<close>: that space's
  flag becomes false, no other space object changes, the target becomes the exit object
  and the state \<open>Moving\<close>. From then on no tick of this vehicle, whatever its elapsed time
  and random draw and whatever the lot looks like by then, writes to the lot at all, so it
  releases no space a second time. \<open>leaveParking\<close> on a vehicle without a target changes
  nothing.
\<close>

theorem leaveParking_releases_once:
  assumes "state v = Parked" and "targetSpace v = Some (SpaceRef r)"
    and "r \<in> set (spaces (lot w))" and "rnd < 1 / 1000"
  shows "update dt rnd (w, v) = leaveParking (w, v)
    \<and> \<not> occupied (heap (fst (leaveParking (w, v))) r)
    \<and> (\<forall>q. q \<noteq> r \<longrightarrow> heap (fst (leaveParking (w, v))) q = heap w q)
    \<and> targetSpace (snd (leaveParking (w, v))) = Some ExitObj
    \<and> state (snd (leaveParking (w, v))) = Moving
    \<and> (\<forall>ts w2. fst (runVehicle ts (w2, snd (leaveParking (w, v)))) = w2)
    \<and> (\<forall>u. targetSpace u = None \<longrightarrow> leaveParking (w, u) = (w, u))"
proof -
  have d: "departed (snd (leaveParking (w, v)))"
    using assms by (simp add: departed_def leaveParking_def)
  have "\<forall>ts w2. fst (runVehicle ts (w2, snd (leaveParking (w, v)))) = w2"
    using departed_runVehicle[OF d] by simp
  moreover have "update dt rnd (w, v) = leaveParking (w, v)"
    using assms by (simp add: update_def)
  moreover have "\<not> occupied (heap (fst (leaveParking (w, v))) r)"
    using assms by (simp add: leaveParking_def)
  moreover have "\<forall>q. q \<noteq> r \<longrightarrow> heap (fst (leaveParking (w, v))) q = heap w q"
    using assms by (simp add: leaveParking_def)
  moreover have "\<forall>u. targetSpace u = None \<longrightarrow> leaveParking (w, u) = (w, u)"
    by (simp add: leaveParking_def)
  moreover have "state (snd (leaveParking (w, v))) = Moving"
    using assms by (simp add: leaveParking_def)
  ultimately show ?thesis using d by (simp add: departed_def)
qed

theorem leaveParking_releases_once_witness:
  "state (snd parkingStep) = Parked
   \<and> targetSpace (snd parkingStep) = Some (SpaceRef 1)
   \<and> 1 \<in> set (spaces (lot (fst parkingStep)))
   \<and> (1 / 2000 :: real) < 1 / 1000
   \<and> occupied (heap (fst parkingStep) 1)
   \<and> \<not> occupied (heap (fst (update (1 / 60) (1 / 2000) parkingStep)) 1)
   \<and> targetSpace (snd (update (1 / 60) (1 / 2000) parkingStep)) = Some ExitObj
   \<and> fst (runVehicle [(1 / 60, 0), (1 / 60, 0)] (update (1 / 60) (1 / 2000) parkingStep))
       = fst (update (1 / 60) (1 / 2000) parkingStep)"
proof -
  have h: "state (snd parkingStep) = Parked" "targetSpace (snd parkingStep) = Some (SpaceRef 1)"
    "1 \<in> set (spaces (lot (fst parkingStep)))" "(1 / 2000 :: real) < 1 / 1000"
    by (simp_all add: parkingStep_eq tinyWorld_spaces)
  have o: "occupied (heap (fst parkingStep) 1)"
    by (simp add: parkingStep_eq tinyWorld_spaces)
  note t = leaveParking_releases_once[OF h, of "1 / 60"]
  from t have u: "update (1 / 60) (1 / 2000) parkingStep = leaveParking parkingStep" by simp
  from t have "\<forall>ts w2. fst (runVehicle ts (w2, snd (leaveParking parkingStep))) = w2"
    by simp
  then have "fst (runVehicle [(1 / 60, 0), (1 / 60, 0)]
                    (fst (leaveParking parkingStep), snd (leaveParking parkingStep)))
                  = fst (leaveParking parkingStep)"
    by blast
  then have r: "fst (runVehicle [(1 / 60, 0), (1 / 60, 0)] (leaveParking parkingStep))
                  = fst (leaveParking parkingStep)"
    by (simp del: runVehicle.simps)
  from t h o u r show ?thesis by (simp del: runVehicle.simps)
qed

section \<open>Speed control\<close>

lemma speed_updateMoving_target:
  "targetSpace v = Some t \<Longrightarrow>
   speed (snd (updateMoving dt (w, v)))
     = (if distanceToTarget w v t < 1 then 0
        else if distanceToTarget w v t < 5 then max (speed v - acceleration v * dt) (1 / 2)
        else min (speed v + acceleration v * dt) (maxSpeed v))"
  by (simp add: updateMoving_def Let_def)

lemma speed_updateMoving_range:
  assumes "0 \<le> dt" "0 \<le> speed v" "speed v \<le> maxSpeed v" "acceleration v = 2" "1 / 2 \<le> maxSpeed v"
  shows "0 \<le> speed (snd (updateMoving dt (w, v))) \<and> speed (snd (updateMoving dt (w, v))) \<le> maxSpeed v"
proof (cases "targetSpace v")
  case None
  with assms show ?thesis
    by (simp add: updateMoving_def findParkingSpace_def split: option.splits)
next
  case (Some t)
  from assms have "0 \<le> acceleration v * dt" by simp
  with assms show ?thesis
    unfolding speed_updateMoving_target[OF Some] by (auto simp: max_def min_def)
qed

text \<open>
  C6, as stated, at a concrete input: a car at rest, 4 units from its target, is set to the
  floor speed 0.5 in a tick of a tenth of a second; the change 0.5 exceeds
  \<open>acceleration * deltaTime = 0.2\<close>.
\<close>

theorem speed_jump_counterexample:
  "state nearCar = Moving
   \<and> targetSpace nearCar = Some (SpaceRef 1)
   \<and> distanceTo (mesh_position nearCar) (targetPosition smallWorld (SpaceRef 1)) = 4
   \<and> speed nearCar = 0
   \<and> speed (snd (update (1 / 10) (1 / 2) (smallWorld, nearCar))) = 1 / 2
   \<and> \<not> \<bar>speed (snd (update (1 / 10) (1 / 2) (smallWorld, nearCar))) - speed nearCar\<bar>
         \<le> acceleration nearCar * (1 / 10)"
  by (simp add: nearCar_def small_eval move_eval update_def)

text \<open>
  C6, amended. Take a moving vehicle whose target is at distance at least 1, a tick with
  \<open>deltaTime \<ge> 0\<close>, a speed within \<open>[0, maxSpeed]\<close> at the start, acceleration 2 and
  \<open>maxSpeed\<close> 5 for a car and 3 for any other type; and take only ticks in which the
  distance value that the tick computes lies in the same zone as the distance to the
  target (not below 1, and below 5 exactly if the distance to the target is below 5).
  Then the new speed is \<open>max (speed - 2 * deltaTime) 0.5\<close> if the vehicle is within 5 units
  of the target and \<open>min (speed + 2 * deltaTime) maxSpeed\<close> otherwise, and it is again
  within \<open>[0, maxSpeed]\<close>. The change of speed is at most \<open>2 * deltaTime\<close> in magnitude
  if the speed at the start is at least the floor 0.5 or the vehicle is not within 5 units
  of the target; a vehicle slower than 0.5 within 5 units of the target is set to 0.5 at
  once.
\<close>

theorem speed_control:
  assumes "state v = Moving" and "targetSpace v = Some t" and "0 \<le> dt"
    and "0 \<le> speed v" and "speed v \<le> maxSpeed v"
    and "acceleration v = 2" and "maxSpeed v = (if v_type v = ''car'' then 5 else 3)"
    and "1 \<le> distanceTo (mesh_position v) (targetPosition w t)"
    and "\<not> distanceToTarget w v t < 1"
    and "(distanceToTarget w v t < 5) = (distanceTo (mesh_position v) (targetPosition w t) < 5)"
  shows "speed (snd (update dt rnd (w, v)))
           = (if distanceTo (mesh_position v) (targetPosition w t) < 5
              then max (speed v - 2 * dt) (1 / 2)
              else min (speed v + 2 * dt) (maxSpeed v))
    \<and> 0 \<le> speed (snd (update dt rnd (w, v)))
    \<and> speed (snd (update dt rnd (w, v))) \<le> maxSpeed v
    \<and> (1 / 2 \<le> speed v \<or> \<not> distanceTo (mesh_position v) (targetPosition w t) < 5 \<longrightarrow>
          \<bar>speed (snd (update dt rnd (w, v))) - speed v\<bar> \<le> 2 * dt)
    \<and> (speed v < 1 / 2 \<and> distanceTo (mesh_position v) (targetPosition w t) < 5 \<longrightarrow>
          speed (snd (update dt rnd (w, v))) = 1 / 2)"
proof -
  let ?D = "distanceTo (mesh_position v) (targetPosition w t)"
  have u: "update dt rnd (w, v) = updateMoving dt (w, v)"
    using assms(1) by (simp add: update_def)
  have m: "1 / 2 \<le> maxSpeed v" using assms(7) by simp
  have s: "speed (snd (updateMoving dt (w, v)))
     = (if ?D < 5 then max (speed v - 2 * dt) (1 / 2)
        else min (speed v + 2 * dt) (maxSpeed v))"
    using assms(6,9,10) by (simp add: speed_updateMoving_target[OF assms(2)])
  have r: "0 \<le> speed (snd (updateMoving dt (w, v))) \<and> speed (snd (updateMoving dt (w, v))) \<le> maxSpeed v"
    by (rule speed_updateMoving_range[OF assms(3,4,5,6) m])
  have b: "1 / 2 \<le> speed v \<or> \<not> ?D < 5 \<longrightarrow>
          \<bar>speed (snd (updateMoving dt (w, v))) - speed v\<bar> \<le> 2 * dt"
    unfolding s using assms(3,4,5) by (auto simp: max_def min_def)
  have f: "speed v < 1 / 2 \<and> ?D < 5 \<longrightarrow>
          speed (snd (updateMoving dt (w, v))) = 1 / 2"
    unfolding s using assms(3) by (auto simp: max_def)
  show ?thesis unfolding u using s r b f by blast
qed

theorem speed_control_witness:
  "state nearCar = Moving \<and> targetSpace nearCar = Some (SpaceRef 1) \<and> (0::real) \<le> 1 / 10
   \<and> 0 \<le> speed nearCar \<and> speed nearCar \<le> maxSpeed nearCar
   \<and> acceleration nearCar = 2 \<and> maxSpeed nearCar = (if v_type nearCar = ''car'' then 5 else 3)
   \<and> distanceTo (mesh_position nearCar) (targetPosition smallWorld (SpaceRef 1)) = 4
   \<and> distanceToTarget smallWorld nearCar (SpaceRef 1) = 2
   \<and> speed (snd (update (1 / 10) (1 / 2) (smallWorld, nearCar))) = 1 / 2
   \<and> speed (snd (update (1 / 10) (1 / 2) (smallWorld, nearCar))) \<le> maxSpeed nearCar
   \<and> distanceTo (mesh_position steerCar) (targetPosition smallWorld (SpaceRef 1)) = 13
   \<and> distanceToTarget smallWorld steerCar (SpaceRef 1) = 21
   \<and> speed (snd (update 2 (1 / 2) (smallWorld, steerCar))) = 4
   \<and> \<bar>speed (snd (update 2 (1 / 2) (smallWorld, steerCar))) - speed steerCar\<bar> \<le> 2 * 2"
proof -
  have h: "state nearCar = Moving" "targetSpace nearCar = Some (SpaceRef 1)" "(0::real) \<le> 1 / 10"
    "0 \<le> speed nearCar" "speed nearCar \<le> maxSpeed nearCar"
    "acceleration nearCar = 2" "maxSpeed nearCar = (if v_type nearCar = ''car'' then 5 else 3)"
    by (simp_all add: nearCar_def small_eval)
  have D: "distanceTo (mesh_position nearCar) (targetPosition smallWorld (SpaceRef 1)) = 4"
    by (simp add: nearCar_def small_eval)
  have d: "distanceToTarget smallWorld nearCar (SpaceRef 1) = 2"
    by (simp add: nearCar_def small_eval move_eval)
  have z: "speed nearCar = 0" by (simp add: nearCar_def small_eval)
  have n1: "1 \<le> distanceTo (mesh_position nearCar) (targetPosition smallWorld (SpaceRef 1))"
    using D by simp
  have n2: "\<not> distanceToTarget smallWorld nearCar (SpaceRef 1) < 1" using d by simp
  have n3: "(distanceToTarget smallWorld nearCar (SpaceRef 1) < 5)
            = (distanceTo (mesh_position nearCar) (targetPosition smallWorld (SpaceRef 1)) < 5)"
    using d D by simp
  have k: "state steerCar = Moving" "targetSpace steerCar = Some (SpaceRef 1)" "(0::real) \<le> 2"
    "0 \<le> speed steerCar" "speed steerCar \<le> maxSpeed steerCar"
    "acceleration steerCar = 2" "maxSpeed steerCar = (if v_type steerCar = ''car'' then 5 else 3)"
    by (simp_all add: steerCar_def small_eval)
  have E: "distanceTo (mesh_position steerCar) (targetPosition smallWorld (SpaceRef 1)) = 13"
    by (simp add: steerCar_def small_eval)
  have e: "distanceToTarget smallWorld steerCar (SpaceRef 1) = 21"
    by (simp add: steerCar_def small_eval move_eval)
  have y: "speed steerCar = 0" "maxSpeed steerCar = 5" by (simp_all add: steerCar_def small_eval)
  have m1: "1 \<le> distanceTo (mesh_position steerCar) (targetPosition smallWorld (SpaceRef 1))"
    using E by simp
  have m2: "\<not> distanceToTarget smallWorld steerCar (SpaceRef 1) < 1" using e by simp
  have m3: "(distanceToTarget smallWorld steerCar (SpaceRef 1) < 5)
            = (distanceTo (mesh_position steerCar) (targetPosition smallWorld (SpaceRef 1)) < 5)"
    using e E by simp
  from speed_control[OF h n1 n2 n3, of "1 / 2"] speed_control[OF k m1 m2 m3, of "1 / 2"]
    h D d z E e y show ?thesis by simp
qed

section \<open>Steering and moving\<close>

lemma steerCar_eq: "steerCar = (carAt (Vector3 0 0 20) (pi / 2))\<lparr> targetSpace := Some (SpaceRef 1) \<rparr>"
  by (simp add: steerCar_def small_eval)

lemma turnAmount_bounded:
  "0 \<le> turnSpeed v * dt \<Longrightarrow> \<bar>turnAmount dt w v t\<bar> \<le> turnSpeed v * dt"
  by (auto simp: turnAmount_def sign_def min_def abs_if)

lemma moveDirection_opposite: "moveDirection rot = multiplyScalar (currentDirection rot) (- 1)"
  by (simp add: moveDirection_def currentDirection_def applyAxisAngleY_def multiplyScalar_def)

text \<open>
  C1, at a concrete input. The car stands at \<open>(0, 0, 20)\<close> with heading \<open>pi / 2\<close>; its target
  is at \<open>(0, 0, 7)\<close>, in direction \<open>(0, 0, -1)\<close>, and the car would move along
  \<open>(-1, 0, 0)\<close>, at a right angle to that direction. A tick of 2 seconds turns the heading
  by \<open>pi / 2\<close> to \<open>pi\<close>. The vector that the turn has aligned with the direction to the
  target is \<open>currentDirection\<close>; the position advances along \<open>moveDirection\<close>, its
  opposite, which now points straight away from the target: the car ends at \<open>(0, 0, 28)\<close>,
  21 units from the target instead of 13.
\<close>

theorem steering_axis_opposes_motion:
  "state steerCar = Moving
   \<and> targetSpace steerCar = Some (SpaceRef 1)
   \<and> mesh_position steerCar = Vector3 0 0 20
   \<and> targetPosition smallWorld (SpaceRef 1) = Vector3 0 0 7
   \<and> dirToTarget smallWorld steerCar (SpaceRef 1) = Vector3 0 0 (- 1)
   \<and> moveDirection (mesh_rotation_y steerCar) = Vector3 (- 1) 0 0
   \<and> mesh_rotation_y (snd (update 2 (1 / 2) (smallWorld, steerCar))) = pi
   \<and> currentDirection pi = Vector3 0 0 (- 1)
   \<and> moveDirection pi = Vector3 0 0 1
   \<and> speed (snd (update 2 (1 / 2) (smallWorld, steerCar))) = 4
   \<and> mesh_position (snd (update 2 (1 / 2) (smallWorld, steerCar))) = Vector3 0 0 28"
  by (simp add: steerCar_eq small_eval move_eval update_def)

section \<open>Reaching the target\<close>

text \<open>The branch of \<open>updateMoving\<close> taken when the distance value of the tick is below 1.\<close>

lemma updateMoving_snap:
  assumes "targetSpace v = Some t" and "distanceToTarget w v t < 1"
  shows "updateMoving dt (w, v)
     = (setSpaceOccupied (Some t) True w,
        v\<lparr> mesh_rotation_y := targetRotation w t, speed := 0, state := Parked,
           mesh_position := targetPosition w t \<rparr>)"
  using assms by (simp add: updateMoving_def Let_def vadd_def multiplyScalar_def)

text \<open>
  C4, at a concrete input. The car is half a unit from its target, a space of the lot. The
  value that the tick compares with the snap threshold is the distance from the car to the
  unit vector \<open>dirToTarget\<close>, here 5.5. So the car is not parked: after the tick it is
  moving, with speed 1/30, it has moved, and the space is not marked occupied.
\<close>

theorem close_to_target_not_parked:
  "state almostThereCar = Moving
   \<and> targetSpace almostThereCar = Some (SpaceRef 1)
   \<and> 1 \<in> set (spaces (lot smallWorld))
   \<and> distanceTo (mesh_position almostThereCar) (targetPosition smallWorld (SpaceRef 1)) = 1 / 2
   \<and> distanceToTarget smallWorld almostThereCar (SpaceRef 1) = 11 / 2
   \<and> state (snd (update (1 / 60) (1 / 2) (smallWorld, almostThereCar))) = Moving
   \<and> speed (snd (update (1 / 60) (1 / 2) (smallWorld, almostThereCar))) = 1 / 30
   \<and> mesh_position (snd (update (1 / 60) (1 / 2) (smallWorld, almostThereCar)))
       = Vector3 0 0 (13 / 2 - 1 / 1800)
   \<and> \<not> occupied (heap (fst (update (1 / 60) (1 / 2) (smallWorld, almostThereCar))) 1)"
  by (simp add: almostThereCar_def small_eval move_eval update_def)

text \<open>
  C10, at a concrete input. The car has left its space; it is half a unit from the exit
  point \<open>(-50, 0, 0)\<close>. The value compared with the snap threshold is 48.5, so after the
  tick the car is still moving, it is not at the exit point, and the statistics count no
  parked vehicle.
\<close>

theorem close_to_exit_not_parked:
  "state leavingCar = Moving
   \<and> targetSpace leavingCar = Some ExitObj
   \<and> distanceTo (mesh_position leavingCar) (targetPosition smallWorld ExitObj) = 1 / 2
   \<and> distanceToTarget smallWorld leavingCar ExitObj = 97 / 2
   \<and> state (snd (update (1 / 60) (1 / 2) (smallWorld, leavingCar))) = Moving
   \<and> mesh_position (snd (update (1 / 60) (1 / 2) (smallWorld, leavingCar)))
       = Vector3 (- (99 / 2) + 1 / 1800) 0 0
   \<and> parkedVehicles (simStats (updateStats
        \<lparr> parkingLot = smallWorld,
          vehicles = [snd (update (1 / 60) (1 / 2) (smallWorld, leavingCar))],
          running = True, elapsedTime = 0,
          simStats = simStats (newSimulation (\<lambda>a. blankSpace)) \<rparr>)) = 0"
  by (simp add: leavingCar_def small_eval move_eval update_def updateStats_def isParked_def isMoving_def)

section \<open>Two vehicles and one space\<close>

lemma pairStart_lot: "parkingLot pairStart = tinyWorld"
  by (simp add: pairStart_def loadCurrentScenario_def Let_def pairOfCars_def tinyWorld_def
      newSimulation_def)

lemma pairStart_vehicles:
  "vehicles pairStart =
     [(carAt (Vector3 0 0 (1 / 10)) 0),
      (carAt (Vector3 0 0 (1 / 5)) 0)\<lparr> color := 0x0000ff \<rparr>]"
  by (simp add: pairStart_def loadCurrentScenario_def Let_def pairOfCars_def carAt_def
      newVehicle_def orDefault_def)

lemma pair_tick1:
  "updateVehicles (1 / 60) (\<lambda>i. 1 / 2) 0 tinyWorld (vehicles pairStart)
     = (tinyWorld,
        [(carAt (Vector3 0 0 (1 / 10)) 0)\<lparr> targetSpace := Some (SpaceRef (Suc 0)) \<rparr>,
         (carAt (Vector3 0 0 (1 / 5)) 0)\<lparr> color := 0x0000ff,
            targetSpace := Some (SpaceRef (Suc 0)) \<rparr>])"
  by (simp add: pairStart_vehicles update_def updateMoving_def tiny_eval)

lemma pair_tick2:
  "updateVehicles (1 / 60) (\<lambda>i. 1 / 2) 0 tinyWorld
        [(carAt (Vector3 0 0 (1 / 10)) 0)\<lparr> targetSpace := Some (SpaceRef (Suc 0)) \<rparr>,
         (carAt (Vector3 0 0 (1 / 5)) 0)\<lparr> color := 0x0000ff,
            targetSpace := Some (SpaceRef (Suc 0)) \<rparr>]
     = (setSpaceOccupied (Some (SpaceRef (Suc 0))) True tinyWorld,
        [(carAt (Vector3 0 0 (1 / 10)) 0)\<lparr> targetSpace := Some (SpaceRef (Suc 0)),
            state := Parked, mesh_position := Vector3 0 0 (1 / 2) \<rparr>,
         (carAt (Vector3 0 0 (1 / 5)) 0)\<lparr> color := 0x0000ff,
            targetSpace := Some (SpaceRef (Suc 0)), state := Parked,
            mesh_position := Vector3 0 0 (1 / 2) \<rparr>])"
  by (simp add: update_def tiny_eval move_eval)

lemma pairLater_steps:
  "pairLater = simUpdate (1 / 60) (\<lambda>i. 1 / 2) (simUpdate (1 / 60) (\<lambda>i. 1 / 2) pairStart)"
  by (simp add: pairLater_def)

lemma pair_afterTick1:
  "parkingLot (simUpdate (1 / 60) (\<lambda>i. 1 / 2) pairStart) = tinyWorld
   \<and> vehicles (simUpdate (1 / 60) (\<lambda>i. 1 / 2) pairStart)
     = [(carAt (Vector3 0 0 (1 / 10)) 0)\<lparr> targetSpace := Some (SpaceRef (Suc 0)) \<rparr>,
        (carAt (Vector3 0 0 (1 / 5)) 0)\<lparr> color := 0x0000ff,
           targetSpace := Some (SpaceRef (Suc 0)) \<rparr>]"
  by (simp add: simUpdate_def pairStart_lot pair_tick1 vehicles_updateStats
      parkingLot_updateStats)

lemma pair_afterTick2:
  "parkingLot pairLater = setSpaceOccupied (Some (SpaceRef (Suc 0))) True tinyWorld
   \<and> vehicles pairLater
     = [(carAt (Vector3 0 0 (1 / 10)) 0)\<lparr> targetSpace := Some (SpaceRef (Suc 0)),
           state := Parked, mesh_position := Vector3 0 0 (1 / 2) \<rparr>,
        (carAt (Vector3 0 0 (1 / 5)) 0)\<lparr> color := 0x0000ff,
           targetSpace := Some (SpaceRef (Suc 0)), state := Parked,
           mesh_position := Vector3 0 0 (1 / 2) \<rparr>]"
  unfolding pairLater_steps
  by (simp add: simUpdate_def[of _ _ "simUpdate (1 / 60) (\<lambda>i. 1 / 2) pairStart"]
      pair_afterTick1 pair_tick2 vehicles_updateStats parkingLot_updateStats
      del: updateVehicles.simps setSpaceOccupied.simps)

lemma occupiedSpaces_updateStats:
  "occupiedSpaces (simStats (updateStats sim)) = fst (countVehicles (vehicles sim) (0, 0, 0, 0))"
  by (simp add: updateStats_def split: prod.splits)

lemma occupiedSpaces_simUpdate:
  "occupiedSpaces (simStats (simUpdate dt rnd sim))
     = fst (countVehicles (vehicles (simUpdate dt rnd sim)) (0, 0, 0, 0))"
  by (simp add: simUpdate_def occupiedSpaces_updateStats vehicles_updateStats split: prod.splits)

text \<open>
  C2, at a concrete input. Two cars start at different places, 0.4 and 0.3 units from the
  space at \<open>(0, 0, 1/2)\<close>, without a target. In the first tick both are given that space
  as target: it is the nearest one and its flag is not set, since a space is marked
  occupied only on arrival. In the second tick both park. After it both cars are in state
  \<open>Parked\<close> with the same target space and at that space's position; one flag of the lot is
  set, and the statistics count two occupied spaces.
\<close>

theorem two_vehicles_in_one_space:
  "map mesh_position (vehicles pairStart) = [Vector3 0 0 (1 / 10), Vector3 0 0 (1 / 5)]
   \<and> map state (vehicles pairStart) = [Moving, Moving]
   \<and> map targetSpace (vehicles pairStart) = [None, None]
   \<and> spaces (lot (parkingLot pairStart)) = [0, 1]
   \<and> position (heap (parkingLot pairStart) 1) = Vector3 0 0 (1 / 2)
   \<and> map state (vehicles pairLater) = [Parked, Parked]
   \<and> map targetSpace (vehicles pairLater) = [Some (SpaceRef 1), Some (SpaceRef 1)]
   \<and> map mesh_position (vehicles pairLater) = [Vector3 0 0 (1 / 2), Vector3 0 0 (1 / 2)]
   \<and> occupied (heap (parkingLot pairLater) 1)
   \<and> \<not> occupied (heap (parkingLot pairLater) 0)
   \<and> occupiedSpaces (simStats pairLater) = 2"
proof -
  have "occupiedSpaces (simStats pairLater) = 2"
    unfolding pairLater_steps occupiedSpaces_simUpdate
    unfolding pairLater_steps[symmetric]
    by (simp add: pair_afterTick2 isParked_def)
  moreover have "occupied (heap (parkingLot pairLater) 1) \<and> \<not> occupied (heap (parkingLot pairLater) 0)"
    by (simp add: pair_afterTick2 tinyWorld_spaces tinyWorld_heap0)
  ultimately show ?thesis
    by (simp add: pair_afterTick2 pairStart_vehicles pairStart_lot tinyWorld_spaces
        tinyWorld_heap1 carAt_def newVehicle_def Let_def orDefault_def)
qed

end
